theory Spec2Isabelle
  imports Main
begin

section \<open>PyGnuplot: the figure registry, command dispatch and data files\<close>

text \<open>
  A shallow embedding of \<^verbatim>\<open>PyGnuplot.py\<close>. Python objects live in explicit stores:
  every \<^verbatim>\<open>_GnuPlot\<close> object has an address (a natural number) in \<open>objs\<close>, and every
  process started by \<^verbatim>\<open>Popen\<close> has a process number whose standard input is the
  text \<open>stdin\<close> holds for it. Addresses and process numbers are handed out by the
  counters \<open>nobjs\<close> and \<open>nprocs\<close>, so two objects are the same object exactly when
  their addresses are equal. The operating system is taken to cooperate: starting
  gnuplot and writing to a pipe or a file succeed. The one exception the module
  itself can raise, \<^verbatim>\<open>max()\<close> of an empty dictionary, is the error \<open>ValueError\<close>.
\<close>

subsection \<open>Formatting\<close>

definition digit_char :: "nat \<Rightarrow> char" where
  "digit_char d = ''0123456789'' ! d"

text \<open>\<^verbatim>\<open>str(n)\<close> of a Python int: decimal digits, a minus sign when negative.\<close>

function str_nat :: "nat \<Rightarrow> string" where
  "str_nat n = (if n < 10 then [digit_char n] else str_nat (n div 10) @ [digit_char (n mod 10)])"
  by pat_completeness auto
termination
  by (relation "measure id") auto

declare str_nat.simps [simp del]

definition str_int :: "int \<Rightarrow> string" where
  "str_int i = (if i < 0 then CHR ''-'' # str_nat (nat (- i)) else str_nat (nat i))"

text \<open>What \<^verbatim>\<open>"{}".format(number)\<close> gives for the argument of \<^verbatim>\<open>figure\<close>: an int or None.\<close>

fun str_number :: "int option \<Rightarrow> string" where
  "str_number None = ''None''"
| "str_number (Some i) = str_int i"

text \<open>The character \<^verbatim>\<open>'\<close>, which a string literal cannot end or start with.\<close>

definition apostrophe :: char where
  "apostrophe = CHR 0x27"


subsection \<open>The data model\<close>

definition DEFAULT_TERM :: string where
  "DEFAULT_TERM = ''x11''"

datatype error = ValueError

text \<open>
  A \<^verbatim>\<open>_GnuPlot\<close> object: its attribute \<^verbatim>\<open>term\<close> (here \<open>terminal\<close>) and the process
  number of its attribute \<^verbatim>\<open>proc\<close>.
\<close>

record GnuPlot =
  terminal :: string
  proc :: nat

text \<open>
  The state of the module: the three attributes of the global \<^verbatim>\<open>fl\<close>
  (\<open>instances\<close> in insertion order, with references to \<^verbatim>\<open>_GnuPlot\<close> objects as
  values; \<open>current_idx\<close>; \<open>current_fig\<close>, a reference), the store of \<^verbatim>\<open>_GnuPlot\<close>
  objects, and the processes started so far with the text written to their input.
\<close>

record world =
  instances :: "(int \<times> nat) list"
  current_idx :: int
  current_fig :: nat
  objs :: "nat \<Rightarrow> GnuPlot"
  nobjs :: nat
  stdin :: "nat \<Rightarrow> string"
  nprocs :: nat

subsection \<open>Dictionaries and \<^verbatim>\<open>max\<close>\<close>

text \<open>\<^verbatim>\<open>max(iterable)\<close>: ValueError on an empty iterable, else the greatest item.\<close>

fun py_max :: "int list \<Rightarrow> error + int" where
  "py_max [] = Inl ValueError"
| "py_max (x # xs) = Inr (fold max xs x)"

text \<open>
  \<^verbatim>\<open>d.setdefault(k, v)\<close>: the value stored under \<open>k\<close> when there is one, else \<open>v\<close>,
  which is then stored under \<open>k\<close>. The default \<open>v\<close> is an argument: the caller has
  evaluated it before the dictionary is looked at.
\<close>

definition setdefault :: "'k \<Rightarrow> 'v \<Rightarrow> ('k \<times> 'v) list \<Rightarrow> 'v \<times> ('k \<times> 'v) list" where
  "setdefault k v d = (case map_of d k of Some x \<Rightarrow> (x, d) | None \<Rightarrow> (v, d @ [(k, v)]))"

subsection \<open>\<^verbatim>\<open>_GnuPlot\<close>\<close>

text \<open>\<^verbatim>\<open>Popen(["gnuplot", "-p"], stdin=PIPE, ...)\<close>: one more process, nothing written yet.\<close>

definition Popen :: "world \<Rightarrow> nat \<times> world" where
  "Popen w = (nprocs w, w\<lparr>stdin := (stdin w)(nprocs w := []), nprocs := nprocs w + 1\<rparr>)"

text \<open>\<^verbatim>\<open>_GnuPlot(term)\<close>: a new object holding \<open>term\<close> and a newly started process.\<close>

definition GnuPlot_init :: "string \<Rightarrow> world \<Rightarrow> nat \<times> world" where
  "GnuPlot_init trm w =
     (let (p, w1) = Popen w;
          self = nobjs w1
      in (self, w1\<lparr>objs := (objs w1)(self := \<lparr>terminal = trm, proc = p\<rparr>),
                    nobjs := nobjs w1 + 1\<rparr>))"

subsection \<open>\<^verbatim>\<open>_FigureList\<close>\<close>

text \<open>\<^verbatim>\<open>_FigureList.__init__\<close>, acting on the state it is constructed in.\<close>

definition FigureList_init :: "world \<Rightarrow> world" where
  "FigureList_init w =
     (let (instance, w1) = GnuPlot_init DEFAULT_TERM w
      in w1\<lparr>instances := [(0, instance)], current_idx := 0, current_fig := instance\<rparr>)"

text \<open>\<^verbatim>\<open>_FigureList.get_figure\<close>; the result is the reference it returns.\<close>

definition get_figure :: "int option \<Rightarrow> world \<Rightarrow> error + nat \<times> world" where
  "get_figure idx w =
     (case (case idx of
              None \<Rightarrow> (case py_max (map fst (instances w)) of
                          Inl e \<Rightarrow> Inl e
                        | Inr m \<Rightarrow> Inr (m + 1))
            | Some i \<Rightarrow> Inr i) of
        Inl e \<Rightarrow> Inl e
      | Inr idx' \<Rightarrow>
          (let (fresh, w1) = GnuPlot_init DEFAULT_TERM w;
               (instance, d) = setdefault idx' fresh (instances w1)
           in Inr (instance,
                   w1\<lparr>instances := d, current_idx := idx', current_fig := instance\<rparr>)))"

subsection \<open>The module's functions\<close>

text \<open>
  \<^verbatim>\<open>c(command)\<close>: \<^verbatim>\<open>print(command, file=fl.current_fig.proc.stdin)\<close> writes the string
  and a newline.
\<close>

definition c :: "string \<Rightarrow> world \<Rightarrow> world" where
  "c command w =
     (let p = proc (objs w (current_fig w))
      in w\<lparr>stdin := (stdin w)(p := stdin w p @ command @ ''\<newline>'')\<rparr>)"

text \<open>\<^verbatim>\<open>figure(number)\<close>; the result is what it returns, \<^verbatim>\<open>number\<close>.\<close>

definition figure :: "int option \<Rightarrow> world \<Rightarrow> error + int option \<times> world" where
  "figure number w =
     (case get_figure number w of
        Inl e \<Rightarrow> Inl e
      | Inr (fig, w1) \<Rightarrow>
          Inr (number,
               c (''set term '' @ terminal (objs w1 fig) @ '' '' @ str_number number) w1))"

text \<open>
  \<^verbatim>\<open>p(filename, width, height, fontsize, term)\<close> and \<^verbatim>\<open>pdf(...)\<close>, with integer sizes.
  The defaults of the source are \<^verbatim>\<open>"tmp.ps"\<close> (\<^verbatim>\<open>"tmp.pdf"\<close>), 14, 9, 12 and
  \<^verbatim>\<open>DEFAULT_TERM\<close>.
\<close>

definition p :: "string \<Rightarrow> int \<Rightarrow> int \<Rightarrow> int \<Rightarrow> string \<Rightarrow> world \<Rightarrow> world" where
  "p filename width height fontsize trm w =
     (let w1 = c (''set term postscript size '' @ str_int width @ ''cm, '' @ str_int height
                  @ ''cm color solid '' @ str_int fontsize @ '' font 'Calibri';'') w;
          w2 = c (''set out '' @ [apostrophe] @ filename @ [apostrophe] @ '';'') w1;
          w3 = c ''replot;'' w2
      in c (''set term '' @ trm @ ''; replot'') w3)"

definition pdf :: "string \<Rightarrow> int \<Rightarrow> int \<Rightarrow> int \<Rightarrow> string \<Rightarrow> world \<Rightarrow> world" where
  "pdf filename width height fontsize trm w =
     (let w1 = c (''set term pdf enhanced size '' @ str_int width @ ''cm, '' @ str_int height
                  @ ''cm color solid fsize '' @ str_int fontsize @ '' fname 'Helvetica';'') w;
          w2 = c (''set out '' @ [apostrophe] @ filename @ [apostrophe] @ '';'') w1;
          w3 = c ''replot;'' w2
      in c (''set term '' @ trm @ ''; replot'') w3)"

subsection \<open>Writing data files\<close>





subsection \<open>Start of the module\<close>

text \<open>
  The state before the module's last line runs: no object, no process. The
  attributes of \<^verbatim>\<open>fl\<close> do not exist yet; \<open>FigureList_init\<close> sets all three.
\<close>

definition boot :: world where
  "boot = \<lparr>instances = [], current_idx = 0, current_fig = 0,
           objs = (\<lambda>_. \<lparr>terminal = [], proc = 0\<rparr>), nobjs = 0,
           stdin = (\<lambda>_. []), nprocs = 0\<rparr>"

text \<open>\<^verbatim>\<open>fl = _FigureList()\<close>: the state once the module is imported.\<close>

definition fl :: world where
  "fl = FigureList_init boot"

subsection \<open>Well-formed and reachable states\<close>

text \<open>
  A reference is allocated when it is the address of an object that has been
  constructed and whose process has been started. In a well-formed state the keys
  of \<open>instances\<close> are distinct, as the keys of a dictionary are, and every
  reference the registry holds is allocated.
\<close>

definition allocated :: "world \<Rightarrow> nat \<Rightarrow> bool" where
  "allocated w r \<longleftrightarrow> r < nobjs w \<and> proc (objs w r) < nprocs w"

definition well_formed :: "world \<Rightarrow> bool" where
  "well_formed w \<longleftrightarrow>
     distinct (map fst (instances w)) \<and>
     (\<forall>r \<in> set (map snd (instances w)). allocated w r) \<and>
     allocated w (current_fig w)"

text \<open>
  The states a program can reach by calling the module's functions after import.
  (\<^verbatim>\<open>plot\<close> touches the registry only through \<^verbatim>\<open>c\<close>; \<^verbatim>\<open>s\<close> touches files only.)
\<close>

inductive reachable :: "world \<Rightarrow> bool" where
  start: "reachable fl"
| after_get_figure: "reachable w \<Longrightarrow> get_figure idx w = Inr (r, w') \<Longrightarrow> reachable w'"
| after_figure: "reachable w \<Longrightarrow> figure number w = Inr (n, w') \<Longrightarrow> reachable w'"
| after_c: "reachable w \<Longrightarrow> reachable (c command w)"
| after_p: "reachable w \<Longrightarrow> reachable (p filename width height fontsize trm w)"
| after_pdf: "reachable w \<Longrightarrow> reachable (pdf filename width height fontsize trm w)"

section \<open>Facts about the model\<close>

lemma GnuPlot_init_eq:
  "GnuPlot_init trm w =
     (nobjs w, w\<lparr>stdin := (stdin w)(nprocs w := []), nprocs := nprocs w + 1,
                 objs := (objs w)(nobjs w := \<lparr>terminal = trm, proc = nprocs w\<rparr>),
                 nobjs := nobjs w + 1\<rparr>)"
  by (simp add: GnuPlot_init_def Popen_def Let_def)

lemma fl_eq:
  "fl = \<lparr>instances = [(0, 0)], current_idx = 0, current_fig = 0,
         objs = (\<lambda>_. \<lparr>terminal = [], proc = 0\<rparr>)(0 := \<lparr>terminal = DEFAULT_TERM, proc = 0\<rparr>),
         nobjs = 1, stdin = (\<lambda>_. [])(0 := []), nprocs = 1\<rparr>"
  by (simp add: fl_def FigureList_init_def GnuPlot_init_eq boot_def)

lemma get_figure_present:
  "map_of (instances w) k = Some r \<Longrightarrow>
   get_figure (Some k) w =
     Inr (r, w\<lparr>stdin := (stdin w)(nprocs w := []), nprocs := nprocs w + 1,
               objs := (objs w)(nobjs w := \<lparr>terminal = DEFAULT_TERM, proc = nprocs w\<rparr>),
               nobjs := nobjs w + 1, instances := instances w,
               current_idx := k, current_fig := r\<rparr>)"
  by (simp add: get_figure_def GnuPlot_init_eq setdefault_def)

lemma get_figure_absent:
  "map_of (instances w) k = None \<Longrightarrow>
   get_figure (Some k) w =
     Inr (nobjs w, w\<lparr>stdin := (stdin w)(nprocs w := []), nprocs := nprocs w + 1,
               objs := (objs w)(nobjs w := \<lparr>terminal = DEFAULT_TERM, proc = nprocs w\<rparr>),
               nobjs := nobjs w + 1, instances := instances w @ [(k, nobjs w)],
               current_idx := k, current_fig := nobjs w\<rparr>)"
  by (simp add: get_figure_def GnuPlot_init_eq setdefault_def)

lemma py_max_Nil_iff: "py_max xs = Inl e \<longleftrightarrow> xs = []"
  by (cases xs; cases e) simp_all

lemma py_max_Max:
  assumes "xs \<noteq> []"
  shows "py_max xs = Inr (Max (set xs))"
proof (cases xs)
  case Nil
  with assms show ?thesis by simp
next
  case (Cons x ys)
  have "fold max ys x = Max (set (x # ys))"
    by (rule Max.set_eq_fold [symmetric])
  with Cons show ?thesis by simp
qed

lemma get_figure_None_empty: "instances w = [] \<Longrightarrow> get_figure None w = Inl ValueError"
  by (simp add: get_figure_def)

lemma get_figure_None:
  "instances w \<noteq> [] \<Longrightarrow>
   get_figure None w = get_figure (Some (Max (set (map fst (instances w))) + 1)) w"
  by (simp add: get_figure_def py_max_Max)

lemma next_key_absent:
  fixes d :: "(int \<times> 'v) list"
  shows "map_of d (Max (set (map fst d)) + 1) = None"
proof (cases "d = []")
  case True
  then show ?thesis by simp
next
  case False
  have "Max (set (map fst d)) + 1 \<notin> set (map fst d)"
  proof
    assume "Max (set (map fst d)) + 1 \<in> set (map fst d)"
    then have "Max (set (map fst d)) + 1 \<le> Max (set (map fst d))"
      by (intro Max_ge) simp_all
    then show False by simp
  qed
  then show ?thesis
    by (simp add: map_of_eq_None_iff)
qed

lemma get_figure_fresh:
  "instances w \<noteq> [] \<Longrightarrow>
   get_figure None w =
     Inr (nobjs w, w\<lparr>stdin := (stdin w)(nprocs w := []), nprocs := nprocs w + 1,
               objs := (objs w)(nobjs w := \<lparr>terminal = DEFAULT_TERM, proc = nprocs w\<rparr>),
               nobjs := nobjs w + 1,
               instances := instances w @ [(Max (set (map fst (instances w))) + 1, nobjs w)],
               current_idx := Max (set (map fst (instances w))) + 1,
               current_fig := nobjs w\<rparr>)"
  using get_figure_absent [OF next_key_absent, of w] by (simp add: get_figure_None)

lemma get_figure_cases:
  obtains (empty) "idx = None" "instances w = []" "get_figure idx w = Inl ValueError"
  | (present) k r where "idx = Some k" "map_of (instances w) k = Some r"
  | (absent) k where "idx = Some k" "map_of (instances w) k = None"
  | (fresh) "idx = None" "instances w \<noteq> []"
  by (cases idx; cases "instances w = []"; cases "map_of (instances w) (the idx)")
     (auto simp: get_figure_None_empty)

lemma allocated_c: "allocated (c command w) r = allocated w r"
  by (simp add: allocated_def c_def Let_def)

lemma well_formed_fl: "well_formed fl"
  by (simp add: well_formed_def allocated_def fl_eq)

lemma well_formed_c: "well_formed w \<Longrightarrow> well_formed (c command w)"
  by (simp add: well_formed_def allocated_c) (simp add: c_def Let_def)

lemma well_formed_extend:
  assumes "well_formed w"
    and "nobjs w' = nobjs w + 1" and "nprocs w' = nprocs w + 1"
    and "objs w' = (objs w)(nobjs w := \<lparr>terminal = trm, proc = nprocs w\<rparr>)"
    and "instances w' = instances w \<and> current_fig w' \<in> set (map snd (instances w)) \<or>
         k \<notin> set (map fst (instances w)) \<and> instances w' = instances w @ [(k, nobjs w)] \<and>
         current_fig w' = nobjs w"
  shows "well_formed w'"
proof -
  have old: "allocated w' r" if "allocated w r" for r
    using that assms(2-4) by (auto simp: allocated_def)
  have new: "allocated w' (nobjs w)"
    using assms(2-4) by (simp add: allocated_def)
  have entries: "\<forall>r \<in> set (map snd (instances w)). allocated w' r"
    using assms(1) old by (simp add: well_formed_def)
  have keys: "distinct (map fst (instances w))"
    using assms(1) by (simp add: well_formed_def)
  from assms(5) show ?thesis
  proof (elim disjE conjE)
    assume same: "instances w' = instances w"
      and cur: "current_fig w' \<in> set (map snd (instances w))"
    from entries cur have "allocated w' (current_fig w')"
      by blast
    with entries keys same show ?thesis
      by (simp add: well_formed_def)
  next
    assume "k \<notin> set (map fst (instances w))" "instances w' = instances w @ [(k, nobjs w)]"
      "current_fig w' = nobjs w"
    with entries keys new show ?thesis
      unfolding well_formed_def by simp
  qed
qed

lemma well_formed_get_figure:
  assumes "well_formed w" and "get_figure idx w = Inr (r, w')"
  shows "well_formed w'"
proof (cases idx w rule: get_figure_cases)
  case empty
  with assms show ?thesis by simp
next
  case (present k r')
  from present(2) have mem: "r' \<in> set (map snd (instances w))"
    by (force dest: map_of_SomeD)
  from assms(2) present have w': "w' = w\<lparr>stdin := (stdin w)(nprocs w := []), nprocs := nprocs w + 1,
               objs := (objs w)(nobjs w := \<lparr>terminal = DEFAULT_TERM, proc = nprocs w\<rparr>),
               nobjs := nobjs w + 1, instances := instances w,
               current_idx := k, current_fig := r'\<rparr>"
    by (auto simp: get_figure_present)
  show ?thesis
    by (rule well_formed_extend [OF assms(1), where trm = DEFAULT_TERM and k = k])
       (simp_all add: w' mem [simplified])
next
  case (absent k)
  from assms(2) absent have w': "w' = w\<lparr>stdin := (stdin w)(nprocs w := []), nprocs := nprocs w + 1,
               objs := (objs w)(nobjs w := \<lparr>terminal = DEFAULT_TERM, proc = nprocs w\<rparr>),
               nobjs := nobjs w + 1, instances := instances w @ [(k, nobjs w)],
               current_idx := k, current_fig := nobjs w\<rparr>"
    by (auto simp: get_figure_absent)
  from absent(2) have "k \<notin> set (map fst (instances w))"
    by (simp add: map_of_eq_None_iff)
  then show ?thesis
    by (intro well_formed_extend [OF assms(1), where trm = DEFAULT_TERM and k = k])
       (simp_all add: w')
next
  case fresh
  let ?k = "Max (set (map fst (instances w))) + 1"
  from assms(2) fresh have w': "w' = w\<lparr>stdin := (stdin w)(nprocs w := []), nprocs := nprocs w + 1,
               objs := (objs w)(nobjs w := \<lparr>terminal = DEFAULT_TERM, proc = nprocs w\<rparr>),
               nobjs := nobjs w + 1, instances := instances w @ [(?k, nobjs w)],
               current_idx := ?k, current_fig := nobjs w\<rparr>"
    by (auto simp: get_figure_fresh)
  have "?k \<notin> set (map fst (instances w))"
    using next_key_absent [of "instances w"] by (simp add: map_of_eq_None_iff)
  then show ?thesis
    by (intro well_formed_extend [OF assms(1), where trm = DEFAULT_TERM and k = ?k])
       (simp_all add: w')
qed

lemma well_formed_figure:
  assumes "well_formed w" and "figure number w = Inr (n, w')"
  shows "well_formed w'"
proof (cases "get_figure number w")
  case (Inl e)
  with assms(2) show ?thesis by (simp add: figure_def)
next
  case (Inr x)
  obtain fig w1 where x: "x = (fig, w1)" by (cases x)
  from assms(1) Inr x have "well_formed w1" by (auto intro: well_formed_get_figure)
  with assms(2) Inr x show ?thesis by (auto simp: figure_def intro: well_formed_c)
qed

lemma well_formed_p: "well_formed w \<Longrightarrow> well_formed (p filename width height fontsize trm w)"
  by (simp add: p_def Let_def well_formed_c)

lemma well_formed_pdf: "well_formed w \<Longrightarrow> well_formed (pdf filename width height fontsize trm w)"
  by (simp add: pdf_def Let_def well_formed_c)

lemma reachable_well_formed: "reachable w \<Longrightarrow> well_formed w"
  by (induction rule: reachable.induct)
     (auto intro: well_formed_fl well_formed_c well_formed_p well_formed_pdf well_formed_get_figure well_formed_figure)

lemma get_figure_instances_nonempty:
  assumes "get_figure idx w = Inr (r, w')"
  shows "instances w' \<noteq> []"
proof (cases idx w rule: get_figure_cases)
  case empty
  with assms show ?thesis by simp
next
  case (present k r')
  then have "instances w \<noteq> []" by auto
  with assms present show ?thesis by (auto simp: get_figure_present)
next
  case (absent k)
  with assms show ?thesis by (auto simp: get_figure_absent)
next
  case fresh
  with assms show ?thesis by (auto simp: get_figure_fresh)
qed

lemma instances_c: "instances (c command w) = instances w"
  by (simp add: c_def Let_def)

lemma instances_p: "instances (p filename width height fontsize trm w) = instances w"
  by (simp add: p_def Let_def instances_c)

lemma instances_pdf: "instances (pdf filename width height fontsize trm w) = instances w"
  by (simp add: pdf_def Let_def instances_c)

lemma figure_instances_nonempty:
  assumes "figure number w = Inr (n, w')"
  shows "instances w' \<noteq> []"
proof (cases "get_figure number w")
  case (Inl e)
  with assms show ?thesis by (simp add: figure_def)
next
  case (Inr x)
  obtain fig w1 where x: "x = (fig, w1)" by (cases x)
  with Inr have "instances w1 \<noteq> []" by (auto dest: get_figure_instances_nonempty)
  with assms Inr x show ?thesis by (auto simp: figure_def instances_c)
qed

lemma reachable_instances_nonempty: "reachable w \<Longrightarrow> instances w \<noteq> []"
proof (induction rule: reachable.induct)
  case start
  show ?case by (simp add: fl_eq)
next
  case (after_get_figure w idx r w')
  then show ?case by (auto dest: get_figure_instances_nonempty)
next
  case (after_figure w number n w')
  then show ?case by (auto dest: figure_instances_nonempty)
next
  case (after_c w command)
  then show ?case by (simp add: instances_c)
next
  case (after_p w filename width height fontsize trm)
  then show ?case by (simp add: instances_p)
next
  case (after_pdf w filename width height fontsize trm)
  then show ?case by (simp add: instances_pdf)
qed

lemma fl_current_proc: "proc (objs fl (current_fig fl)) = 0"
  by (simp add: fl_eq)

lemma fl_stdin: "stdin fl q = []"
  by (simp add: fl_eq)

lemma stdin_c:
  "stdin (c command w) q =
     (if q = proc (objs w (current_fig w)) then stdin w q @ command @ ''\<newline>'' else stdin w q)"
  by (simp add: c_def Let_def)

lemma objs_c: "objs (c command w) = objs w"
  by (simp add: c_def Let_def)

lemma current_fig_c: "current_fig (c command w) = current_fig w"
  by (simp add: c_def Let_def)

lemma well_formed_lookup:
  assumes "well_formed w" and "map_of (instances w) k = Some r"
  shows "r < nobjs w" and "proc (objs w r) < nprocs w"
proof -
  from assms(2) have "r \<in> set (map snd (instances w))"
    by (force dest: map_of_SomeD)
  with assms(1) have "allocated w r"
    unfolding well_formed_def by blast
  then show "r < nobjs w" and "proc (objs w r) < nprocs w"
    by (simp_all add: allocated_def)
qed

lemma get_figure_selects:
  assumes "get_figure idx w = Inr (r, w')"
  shows "map_of (instances w') (current_idx w') = Some (current_fig w')"
    and "current_fig w' = r"
    and "current_idx w' = (case idx of Some k \<Rightarrow> k
                           | None \<Rightarrow> Max (set (map fst (instances w))) + 1)"
proof -
  have "map_of (instances w') (current_idx w') = Some (current_fig w') \<and>
      current_fig w' = r \<and>
      current_idx w' = (case idx of Some k \<Rightarrow> k
                        | None \<Rightarrow> Max (set (map fst (instances w))) + 1)"
  proof (cases idx w rule: get_figure_cases)
    case empty
    with assms show ?thesis by simp
  next
    case (present k r')
    with assms show ?thesis by (auto simp: get_figure_present)
  next
    case (absent k)
    with assms show ?thesis by (auto simp: get_figure_absent map_add_def)
  next
    case fresh
    with assms next_key_absent [of "instances w"] show ?thesis
      by (auto simp: get_figure_fresh map_add_def)
  qed
  then show "map_of (instances w') (current_idx w') = Some (current_fig w')"
    and "current_fig w' = r"
    and "current_idx w' = (case idx of Some k \<Rightarrow> k
                           | None \<Rightarrow> Max (set (map fst (instances w))) + 1)"
    by blast+
qed

lemma get_figure_store:
  assumes "get_figure idx w = Inr (r, w')"
  shows "nobjs w' = nobjs w + 1"
    and "objs w' = (objs w)(nobjs w := \<lparr>terminal = DEFAULT_TERM, proc = nprocs w\<rparr>)"
proof -
  have "nobjs w' = nobjs w + 1 \<and>
        objs w' = (objs w)(nobjs w := \<lparr>terminal = DEFAULT_TERM, proc = nprocs w\<rparr>)"
  proof (cases idx w rule: get_figure_cases)
    case empty
    with assms show ?thesis by simp
  next
    case (present k r')
    with assms show ?thesis by (auto simp: get_figure_present)
  next
    case (absent k)
    with assms show ?thesis by (auto simp: get_figure_absent)
  next
    case fresh
    with assms show ?thesis by (auto simp: get_figure_fresh)
  qed
  then show "nobjs w' = nobjs w + 1"
    and "objs w' = (objs w)(nobjs w := \<lparr>terminal = DEFAULT_TERM, proc = nprocs w\<rparr>)"
    by blast+
qed

lemma nobjs_c: "nobjs (c command w) = nobjs w"
  by (simp add: c_def Let_def)

lemma objs_p: "objs (p filename width height fontsize trm w) = objs w"
  by (simp add: p_def Let_def objs_c)

lemma objs_pdf: "objs (pdf filename width height fontsize trm w) = objs w"
  by (simp add: pdf_def Let_def objs_c)

lemma nobjs_p: "nobjs (p filename width height fontsize trm w) = nobjs w"
  by (simp add: p_def Let_def nobjs_c)

lemma nobjs_pdf: "nobjs (pdf filename width height fontsize trm w) = nobjs w"
  by (simp add: pdf_def Let_def nobjs_c)

lemma get_figure_terminals:
  assumes "get_figure idx w = Inr (r, w')"
    and "\<forall>a<nobjs w. terminal (objs w a) = DEFAULT_TERM"
  shows "\<forall>a<nobjs w'. terminal (objs w' a) = DEFAULT_TERM"
  using assms(2) by (simp add: get_figure_store [OF assms(1)] less_Suc_eq)

lemma figure_terminals:
  assumes "figure number w = Inr (n, w')"
    and "\<forall>a<nobjs w. terminal (objs w a) = DEFAULT_TERM"
  shows "\<forall>a<nobjs w'. terminal (objs w' a) = DEFAULT_TERM"
proof (cases "get_figure number w")
  case (Inl e)
  with assms(1) show ?thesis by (simp add: figure_def)
next
  case (Inr x)
  obtain fig w1 where x: "x = (fig, w1)" by (cases x)
  from Inr x have "get_figure number w = Inr (fig, w1)" by simp
  then have "\<forall>a<nobjs w1. terminal (objs w1 a) = DEFAULT_TERM"
    using assms(2) by (rule get_figure_terminals)
  with assms(1) Inr x show ?thesis
    by (auto simp: figure_def objs_c nobjs_c)
qed

lemma reachable_terminals:
  "reachable w \<Longrightarrow> \<forall>a<nobjs w. terminal (objs w a) = DEFAULT_TERM"
proof (induction rule: reachable.induct)
  case start
  show ?case by (simp add: fl_eq)
next
  case (after_get_figure w idx r w')
  then show ?case by (blast intro: get_figure_terminals [rule_format])
next
  case (after_figure w number n w')
  then show ?case by (blast intro: figure_terminals [rule_format])
next
  case (after_c w command)
  then show ?case by (simp add: objs_c nobjs_c)
next
  case (after_p w filename width height fontsize trm)
  then show ?case by (simp add: objs_p nobjs_p)
next
  case (after_pdf w filename width height fontsize trm)
  then show ?case by (simp add: objs_pdf nobjs_pdf)
qed

lemma reachable_current_terminal:
  assumes "reachable w"
  shows "terminal (objs w (current_fig w)) = DEFAULT_TERM"
proof -
  from assms have "well_formed w" by (rule reachable_well_formed)
  then have "current_fig w < nobjs w"
    by (simp add: well_formed_def allocated_def)
  with reachable_terminals [OF assms] show ?thesis by blast
qed

section \<open>The claims\<close>

text \<open>
  C1. The claim: from the seeded state, every \<^verbatim>\<open>figure()\<close> call without an id returns
  the id it resolved, one more than the call before, and \<open>current_idx\<close> equals the
  returned value. The docstring of \<^verbatim>\<open>figure\<close> promises the new figure number, but the
  function returns its argument: the first call on the seeded registry creates
  figure 1, makes it current, and returns \<open>None\<close>.
\<close>

theorem figure_None_returns_None:
  "\<exists>w'. figure None fl = Inr (None, w') \<and> current_idx w' = 1 \<and> instances w' = [(0, 0), (1, 1)]"
  by (simp add: figure_def get_figure_fresh fl_eq c_def Let_def)

text \<open>
  C2. The claim: selecting an id that is already a key returns the existing handle
  and starts no new process. The existing handle is returned and the dictionary is
  as before, but the default passed to \<^verbatim>\<open>setdefault\<close> is constructed before the
  lookup: selecting figure 0 on the seeded registry starts a second process and
  constructs a second object.
\<close>

theorem get_figure_existing_starts_process:
  "\<exists>w'. get_figure (Some 0) fl = Inr (0, w') \<and> instances w' = instances fl \<and>
        nprocs fl = 1 \<and> nprocs w' = 2 \<and> nobjs fl = 1 \<and> nobjs w' = 2"
  by (simp add: get_figure_present fl_eq)


text \<open>
  C9. The registry starts with exactly one handle, at id 0, which is current, and
  \<open>instances\<close> is non-empty in every reachable state: \<^verbatim>\<open>max\<close> never sees an empty
  dictionary, so \<^verbatim>\<open>get_figure()\<close> and \<^verbatim>\<open>figure()\<close> without an id never raise.
\<close>

theorem registry_seeded_never_empty:
  "instances fl = [(0, 0)] \<and> current_idx fl = 0 \<and> current_fig fl = 0 \<and>
   objs fl 0 = \<lparr>terminal = DEFAULT_TERM, proc = 0\<rparr> \<and> nobjs fl = 1 \<and> nprocs fl = 1 \<and>
   (reachable w \<longrightarrow>
      instances w \<noteq> [] \<and> py_max (map fst (instances w)) \<noteq> Inl ValueError \<and>
      (\<exists>r w'. get_figure None w = Inr (r, w')) \<and>
      (\<exists>w'. figure None w = Inr (None, w')))"
proof -
  have "instances w \<noteq> [] \<and> py_max (map fst (instances w)) \<noteq> Inl ValueError \<and>
      (\<exists>r w'. get_figure None w = Inr (r, w')) \<and>
      (\<exists>w'. figure None w = Inr (None, w'))" if "reachable w"
  proof -
    from that have ne: "instances w \<noteq> []"
      by (rule reachable_instances_nonempty)
    then have "py_max (map fst (instances w)) \<noteq> Inl ValueError"
      by (simp add: py_max_Nil_iff)
    moreover from ne have "\<exists>r w'. get_figure None w = Inr (r, w')"
      by (simp add: get_figure_fresh)
    moreover from ne have "\<exists>w'. figure None w = Inr (None, w')"
      by (simp add: figure_def get_figure_fresh)
    ultimately show ?thesis using ne by simp
  qed
  then show ?thesis
    by (simp add: fl_eq)
qed

theorem registry_seeded_never_empty_witness:
  "reachable fl \<and> instances fl \<noteq> [] \<and> (\<exists>r w'. get_figure None fl = Inr (r, w'))"
  using registry_seeded_never_empty [of fl] reachable.start by simp

text \<open>
  C3. \<^verbatim>\<open>c(command)\<close> appends exactly \<open>command\<close> and one newline to the input of the
  current figure's process; the input of every other process and the registry stay
  as they were. For \<^verbatim>\<open>c("plot sin(x)")\<close> the text appended is \<^verbatim>\<open>plot sin(x)\<close> and a
  newline.
\<close>

theorem c_writes_command_and_newline:
  "stdin (c command w) (proc (objs w (current_fig w)))
     = stdin w (proc (objs w (current_fig w))) @ command @ ''\<newline>'' \<and>
   (\<forall>q. q \<noteq> proc (objs w (current_fig w)) \<longrightarrow> stdin (c command w) q = stdin w q) \<and>
   instances (c command w) = instances w \<and>
   current_idx (c command w) = current_idx w \<and>
   current_fig (c command w) = current_fig w \<and>
   objs (c command w) = objs w \<and> nobjs (c command w) = nobjs w \<and>
   nprocs (c command w) = nprocs w \<and>
   stdin (c ''plot sin(x)'' w) (proc (objs w (current_fig w)))
     = stdin w (proc (objs w (current_fig w))) @ ''plot sin(x)\<newline>''"
  by (simp add: c_def Let_def)

theorem c_writes_command_and_newline_witness:
  "stdin (c ''plot sin(x)'' fl) 0 = ''plot sin(x)\<newline>'' \<and>
   (1::nat) \<noteq> proc (objs fl (current_fig fl)) \<and> stdin (c ''plot sin(x)'' fl) 1 = stdin fl 1"
  using c_writes_command_and_newline [of "''plot sin(x)''" fl]
  by (simp add: fl_current_proc fl_stdin)

text \<open>
  C5. Whenever \<^verbatim>\<open>get_figure\<close> returns, for an id that is present, one that is absent
  or none at all, \<open>current_fig\<close> is the handle stored in \<open>instances\<close> under
  \<open>current_idx\<close>; it is the handle returned, and \<open>current_idx\<close> is the id given or,
  without one, the greatest key plus one. The same holds after \<^verbatim>\<open>figure\<close>.
\<close>

theorem get_figure_current_in_sync:
  "(get_figure idx w = Inr (r, w') \<longrightarrow>
      map_of (instances w') (current_idx w') = Some (current_fig w') \<and>
      current_fig w' = r \<and>
      current_idx w' = (case idx of Some k \<Rightarrow> k
                        | None \<Rightarrow> Max (set (map fst (instances w))) + 1)) \<and>
   (figure idx w = Inr (n, w'') \<longrightarrow>
      map_of (instances w'') (current_idx w'') = Some (current_fig w''))"
proof -
  have "map_of (instances w'') (current_idx w'') = Some (current_fig w'')"
    if fig: "figure idx w = Inr (n, w'')"
  proof (cases "get_figure idx w")
    case (Inl e)
    with fig show ?thesis by (simp add: figure_def)
  next
    case (Inr x)
    obtain t v' where x: "x = (t, v')" by (cases x)
    from Inr x have "get_figure idx w = Inr (t, v')" by simp
    then have "map_of (instances v') (current_idx v') = Some (current_fig v')"
      by (rule get_figure_selects)
    with fig Inr x show ?thesis
      by (auto simp: figure_def c_def Let_def)
  qed
  then show ?thesis
    by (auto dest: get_figure_selects)
qed

theorem get_figure_current_in_sync_witness:
  "\<exists>r w' n w''. get_figure (Some 5) fl = Inr (r, w') \<and>
     map_of (instances w') (current_idx w') = Some (current_fig w') \<and>
     current_fig w' = r \<and> current_idx w' = 5 \<and>
     figure (Some 5) fl = Inr (n, w'') \<and>
     map_of (instances w'') (current_idx w'') = Some (current_fig w'')"
proof -
  obtain r w' where g: "get_figure (Some 5) fl = Inr (r, w')"
    by (simp add: get_figure_absent fl_eq)
  then obtain n w'' where f: "figure (Some 5) fl = Inr (n, w'')"
    by (simp add: figure_def)
  from g f get_figure_current_in_sync [of "Some 5" fl r w' n w''] show ?thesis
    by auto
qed

text \<open>
  C6. \<^verbatim>\<open>p\<close> and \<^verbatim>\<open>pdf\<close> are four calls of \<^verbatim>\<open>c\<close>, in this order: set the terminal to
  the output format (\<^verbatim>\<open>postscript\<close> or \<^verbatim>\<open>pdf\<close>, with the sizes), set the output to
  the file name, \<^verbatim>\<open>replot;\<close>, and set the terminal to the argument \<open>term\<close> followed
  by \<^verbatim>\<open>replot\<close>. The current process receives these four lines after what it had
  received before, and no other process receives anything. The fourth command
  names the argument, whatever terminal the figure had; in a reachable state the
  current figure's terminal is \<^verbatim>\<open>DEFAULT_TERM\<close>, the default of that argument, so
  a call that leaves \<open>term\<close> at its default names the figure's own terminal.
\<close>

theorem p_and_pdf_four_commands:
  "p filename width height fontsize trm w =
     c (''set term '' @ trm @ ''; replot'')
       (c ''replot;''
          (c (''set out '' @ [apostrophe] @ filename @ [apostrophe] @ '';'')
             (c (''set term postscript size '' @ str_int width @ ''cm, '' @ str_int height
                 @ ''cm color solid '' @ str_int fontsize @ '' font 'Calibri';'') w))) \<and>
   pdf filename width height fontsize trm w =
     c (''set term '' @ trm @ ''; replot'')
       (c ''replot;''
          (c (''set out '' @ [apostrophe] @ filename @ [apostrophe] @ '';'')
             (c (''set term pdf enhanced size '' @ str_int width @ ''cm, '' @ str_int height
                 @ ''cm color solid fsize '' @ str_int fontsize @ '' fname 'Helvetica';'') w))) \<and>
   stdin (p filename width height fontsize trm w) (proc (objs w (current_fig w))) =
     stdin w (proc (objs w (current_fig w)))
     @ ''set term postscript size '' @ str_int width @ ''cm, '' @ str_int height
     @ ''cm color solid '' @ str_int fontsize @ '' font 'Calibri';\<newline>''
     @ ''set out '' @ [apostrophe] @ filename @ [apostrophe] @ '';\<newline>''
     @ ''replot;\<newline>''
     @ ''set term '' @ trm @ ''; replot\<newline>'' \<and>
   stdin (pdf filename width height fontsize trm w) (proc (objs w (current_fig w))) =
     stdin w (proc (objs w (current_fig w)))
     @ ''set term pdf enhanced size '' @ str_int width @ ''cm, '' @ str_int height
     @ ''cm color solid fsize '' @ str_int fontsize @ '' fname 'Helvetica';\<newline>''
     @ ''set out '' @ [apostrophe] @ filename @ [apostrophe] @ '';\<newline>''
     @ ''replot;\<newline>''
     @ ''set term '' @ trm @ ''; replot\<newline>'' \<and>
   (\<forall>q. q \<noteq> proc (objs w (current_fig w)) \<longrightarrow>
      stdin (p filename width height fontsize trm w) q = stdin w q \<and>
      stdin (pdf filename width height fontsize trm w) q = stdin w q) \<and>
   (reachable w \<longrightarrow> terminal (objs w (current_fig w)) = DEFAULT_TERM)"
  by (simp add: p_def pdf_def Let_def stdin_c objs_c current_fig_c reachable_current_terminal)

theorem p_and_pdf_four_commands_witness:
  "stdin (p ''tmp.ps'' 14 9 12 DEFAULT_TERM fl) 0 =
     ''set term postscript size 14cm, 9cm color solid 12 font 'Calibri';\<newline>''
     @ ''set out '' @ [apostrophe] @ ''tmp.ps'' @ [apostrophe] @ '';\<newline>''
     @ ''replot;\<newline>set term x11; replot\<newline>'' \<and>
   stdin (pdf ''tmp.pdf'' 14 9 12 DEFAULT_TERM fl) 0 =
     ''set term pdf enhanced size 14cm, 9cm color solid fsize 12 fname 'Helvetica';\<newline>''
     @ ''set out '' @ [apostrophe] @ ''tmp.pdf'' @ [apostrophe] @ '';\<newline>''
     @ ''replot;\<newline>set term x11; replot\<newline>'' \<and>
   (1::nat) \<noteq> proc (objs fl (current_fig fl)) \<and>
   stdin (p ''tmp.ps'' 14 9 12 DEFAULT_TERM fl) 1 = stdin fl 1 \<and>
   stdin (pdf ''tmp.pdf'' 14 9 12 DEFAULT_TERM fl) 1 = stdin fl 1 \<and>
   reachable fl \<and> terminal (objs fl (current_fig fl)) = DEFAULT_TERM"
  using reachable.start p_and_pdf_four_commands [of "''tmp.ps''" 14 9 12 DEFAULT_TERM fl, THEN conjunct2, THEN conjunct2]
    p_and_pdf_four_commands [of "''tmp.pdf''" 14 9 12 DEFAULT_TERM fl, THEN conjunct2, THEN conjunct2]
  by (simp add: fl_current_proc fl_stdin DEFAULT_TERM_def str_int_def str_nat.simps digit_char_def)

text \<open>
  C6, as the claim words it, has the fourth command restore the original terminal.
  On the seeded registry the current figure's terminal is \<^verbatim>\<open>x11\<close>; called with
  \<^verbatim>\<open>term="qt"\<close>, \<^verbatim>\<open>p\<close> and \<^verbatim>\<open>pdf\<close> send \<^verbatim>\<open>set term qt; replot\<close> as their fourth
  line, not the line that names the figure's terminal.
\<close>

theorem p_and_pdf_restore_original_counterexample:
  "terminal (objs fl (current_fig fl)) = ''x11'' \<and>
   stdin (p ''tmp.ps'' 14 9 12 ''qt'' fl) (proc (objs fl (current_fig fl))) =
     ''set term postscript size 14cm, 9cm color solid 12 font 'Calibri';\<newline>''
     @ ''set out '' @ [apostrophe] @ ''tmp.ps'' @ [apostrophe] @ '';\<newline>''
     @ ''replot;\<newline>set term qt; replot\<newline>'' \<and>
   stdin (p ''tmp.ps'' 14 9 12 ''qt'' fl) (proc (objs fl (current_fig fl))) \<noteq>
     ''set term postscript size 14cm, 9cm color solid 12 font 'Calibri';\<newline>''
     @ ''set out '' @ [apostrophe] @ ''tmp.ps'' @ [apostrophe] @ '';\<newline>''
     @ ''replot;\<newline>''
     @ ''set term '' @ terminal (objs fl (current_fig fl)) @ ''; replot\<newline>'' \<and>
   stdin (pdf ''tmp.pdf'' 14 9 12 ''qt'' fl) (proc (objs fl (current_fig fl))) \<noteq>
     ''set term pdf enhanced size 14cm, 9cm color solid fsize 12 fname 'Helvetica';\<newline>''
     @ ''set out '' @ [apostrophe] @ ''tmp.pdf'' @ [apostrophe] @ '';\<newline>''
     @ ''replot;\<newline>''
     @ ''set term '' @ terminal (objs fl (current_fig fl)) @ ''; replot\<newline>''"
  by (simp add: p_def pdf_def Let_def stdin_c objs_c current_fig_c fl_eq DEFAULT_TERM_def
      str_int_def str_nat.simps digit_char_def)

text \<open>
  C7. In a well-formed state, \<^verbatim>\<open>get_figure(k)\<close> for a key \<open>k\<close> of \<open>instances\<close> returns
  the reference stored under \<open>k\<close>, and after the call \<open>k\<close> holds that same reference
  to the same, unchanged object; the object constructed during the call is a
  different one.
\<close>

theorem get_figure_existing_same_handle:
  assumes "well_formed w" and "map_of (instances w) k = Some r"
  shows "\<exists>w'. get_figure (Some k) w = Inr (r, w') \<and>
           instances w' = instances w \<and> map_of (instances w') k = Some r \<and>
           objs w' r = objs w r \<and> r \<noteq> nobjs w \<and>
           stdin w' (proc (objs w' r)) = stdin w (proc (objs w r)) \<and>
           current_idx w' = k \<and> current_fig w' = r"
proof -
  from assms have "r < nobjs w" and "proc (objs w r) < nprocs w"
    by (rule well_formed_lookup)+
  with assms(2) show ?thesis
    by (simp add: get_figure_present)
qed

theorem get_figure_existing_same_handle_witness:
  "well_formed fl \<and> map_of (instances fl) 0 = Some 0 \<and>
   (\<exists>w'. get_figure (Some 0) fl = Inr (0, w') \<and> map_of (instances w') 0 = Some 0 \<and>
      objs w' 0 = objs fl 0)"
proof -
  have present: "map_of (instances fl) 0 = Some 0"
    by (simp add: fl_eq)
  from get_figure_existing_same_handle [OF well_formed_fl present] well_formed_fl present
  show ?thesis by auto
qed

text \<open>
  C8. In a well-formed state, \<^verbatim>\<open>get_figure(k)\<close> for an id \<open>k\<close> that is not a key
  appends the one entry \<open>k\<close>, whose handle is a new object with the default terminal
  and a new process, and makes it current; every entry that was there keeps its
  key, its reference and its object, and its process has received nothing.
\<close>

theorem get_figure_new_inserts_one:
  assumes "well_formed w" and "map_of (instances w) k = None"
  shows "\<exists>w'. get_figure (Some k) w = Inr (nobjs w, w') \<and>
           instances w' = instances w @ [(k, nobjs w)] \<and>
           map_of (instances w') k = Some (nobjs w) \<and>
           objs w' (nobjs w) = \<lparr>terminal = DEFAULT_TERM, proc = nprocs w\<rparr> \<and>
           stdin w' (nprocs w) = [] \<and>
           current_idx w' = k \<and> current_fig w' = nobjs w \<and>
           (\<forall>k' r'. map_of (instances w) k' = Some r' \<longrightarrow>
              k' \<noteq> k \<and> r' \<noteq> nobjs w \<and> map_of (instances w') k' = Some r' \<and>
              objs w' r' = objs w r' \<and>
              stdin w' (proc (objs w' r')) = stdin w (proc (objs w r')))"
proof -
  have old: "k' \<noteq> k \<and> r' < nobjs w \<and> proc (objs w r') < nprocs w"
    if "map_of (instances w) k' = Some r'" for k' r'
    using that assms well_formed_lookup [OF assms(1) that] by auto
  show ?thesis
    using assms(2) by (auto simp: get_figure_absent map_add_def dest: old)
qed

theorem get_figure_new_inserts_one_witness:
  "well_formed fl \<and> map_of (instances fl) 5 = None \<and>
   (\<exists>w'. get_figure (Some 5) fl = Inr (1, w') \<and> instances w' = [(0, 0), (5, 1)] \<and>
      objs w' 1 = \<lparr>terminal = ''x11'', proc = 1\<rparr> \<and> current_idx w' = 5 \<and>
      current_fig w' = 1 \<and> map_of (instances fl) 0 = Some 0 \<and>
      map_of (instances w') 0 = Some 0 \<and> objs w' 0 = objs fl 0)"
proof -
  have absent: "map_of (instances fl) 5 = None" and present: "map_of (instances fl) 0 = Some 0"
    by (simp_all add: fl_eq)
  have "nobjs fl = 1" "nprocs fl = 1" "instances fl = [(0, 0)]"
    by (simp_all add: fl_eq)
  with get_figure_new_inserts_one [OF well_formed_fl absent] well_formed_fl absent present
  show ?thesis by (auto simp: DEFAULT_TERM_def)
qed

text \<open>
  C10. Every call \<^verbatim>\<open>figure(number)\<close> that selects or creates a figure also sends that
  figure's process exactly one line, \<^verbatim>\<open>set term\<close> followed by the figure's terminal
  and by \<open>number\<close> as \<^verbatim>\<open>format\<close> prints it; nothing else changes after the selection.
  Without an argument, on a registry that is not empty, the new process receives
  \<^verbatim>\<open>set term x11 None\<close> and nothing else.
\<close>

theorem figure_sends_set_term:
  "(get_figure number w = Inr (fig, w1) \<longrightarrow>
      (\<exists>w2. figure number w = Inr (number, w2) \<and>
         instances w2 = instances w1 \<and> current_idx w2 = current_idx w1 \<and>
         current_fig w2 = fig \<and> objs w2 = objs w1 \<and>
         stdin w2 (proc (objs w2 fig)) =
           stdin w1 (proc (objs w1 fig))
           @ ''set term '' @ terminal (objs w1 fig) @ '' '' @ str_number number @ ''\<newline>'' \<and>
         (\<forall>q. q \<noteq> proc (objs w1 fig) \<longrightarrow> stdin w2 q = stdin w1 q))) \<and>
   (instances w \<noteq> [] \<longrightarrow>
      (\<exists>w2. figure None w = Inr (None, w2) \<and>
         stdin w2 (proc (objs w2 (current_fig w2))) = ''set term x11 None\<newline>''))"
proof -
  have cur: "current_fig w1 = fig" if "get_figure number w = Inr (fig, w1)"
    using that by (rule get_figure_selects)
  have first: "\<exists>w2. figure number w = Inr (number, w2) \<and>
         instances w2 = instances w1 \<and> current_idx w2 = current_idx w1 \<and>
         current_fig w2 = fig \<and> objs w2 = objs w1 \<and>
         stdin w2 (proc (objs w2 fig)) =
           stdin w1 (proc (objs w1 fig))
           @ ''set term '' @ terminal (objs w1 fig) @ '' '' @ str_number number @ ''\<newline>'' \<and>
         (\<forall>q. q \<noteq> proc (objs w1 fig) \<longrightarrow> stdin w2 q = stdin w1 q)"
    if g: "get_figure number w = Inr (fig, w1)"
    using g cur [OF g] by (simp add: figure_def c_def Let_def)
  have second: "\<exists>w2. figure None w = Inr (None, w2) \<and>
         stdin w2 (proc (objs w2 (current_fig w2))) = ''set term x11 None\<newline>''"
    if "instances w \<noteq> []"
    using that by (simp add: figure_def get_figure_fresh c_def Let_def DEFAULT_TERM_def)
  from first second show ?thesis by blast
qed

theorem figure_sends_set_term_witness:
  "instances fl \<noteq> [] \<and>
   (\<exists>fig w1 w2. get_figure (Some 0) fl = Inr (fig, w1) \<and> figure (Some 0) fl = Inr (Some 0, w2) \<and>
      stdin w2 (proc (objs w2 fig)) = ''set term x11 0\<newline>'') \<and>
   (\<exists>w2. figure None fl = Inr (None, w2) \<and>
      stdin w2 (proc (objs w2 (current_fig w2))) = ''set term x11 None\<newline>'')"
proof -
  have ne: "instances fl \<noteq> []"
    by (simp add: fl_eq)
  obtain fig w1 where g: "get_figure (Some 0) fl = Inr (fig, w1)"
    and fig: "fig = 0" and t: "terminal (objs w1 fig) = ''x11''"
    and i: "stdin w1 (proc (objs w1 fig)) = []"
    by (simp add: get_figure_present fl_eq DEFAULT_TERM_def)
  from figure_sends_set_term [of "Some 0" fl fig w1] g
  obtain w2 where "figure (Some 0) fl = Inr (Some 0, w2)"
    and "stdin w2 (proc (objs w2 fig)) =
           stdin w1 (proc (objs w1 fig))
           @ ''set term '' @ terminal (objs w1 fig) @ '' '' @ str_number (Some 0) @ ''\<newline>''"
    by blast
  with g t i have "\<exists>fig w1 w2. get_figure (Some 0) fl = Inr (fig, w1) \<and>
      figure (Some 0) fl = Inr (Some 0, w2) \<and>
      stdin w2 (proc (objs w2 fig)) = ''set term x11 0\<newline>''"
    by (auto simp: str_int_def str_nat.simps digit_char_def)
  with ne figure_sends_set_term [of None fl 0 fl] show ?thesis
    by blast
qed

end
